theory Spec2Isabelle
  imports Main
begin

section \<open>JavaScript values\<close>

text \<open>
  The commands of the CLI are TypeScript. Strings are modelled as \<open>string\<close> (the UTF-8
  bytes of the text, so that \<open>length\<close> is \<open>Buffer.byteLength(s, "utf8")\<close>), an optional
  argument \<open>x?: string\<close> as \<open>string option\<close> (\<open>None\<close> is \<open>undefined\<close>), and the object
  literals handed to \<open>output.json\<close> as values of the type \<open>json\<close>, fields in the order the
  source writes them.
\<close>

datatype json =
    JNull
  | JBool bool
  | JNum int
  | JStr string
  | JArr "json list"
  | JObj "(string \<times> json) list"

text \<open>\<open>Boolean(s)\<close> and \<open>!s\<close> on an optional string: \<open>undefined\<close> and \<open>""\<close> are falsy.\<close>

fun truthy :: "string option \<Rightarrow> bool" where
  "truthy None = False"
| "truthy (Some s) = (s \<noteq> [])"

text \<open>Truthiness of a value returned by the SDK (\<open>result ? 1 : 0\<close>, \<open>if (templateId)\<close>).\<close>

fun js_truthy :: "json \<Rightarrow> bool" where
  "js_truthy JNull = False"
| "js_truthy (JBool b) = b"
| "js_truthy (JNum n) = (n \<noteq> 0)"
| "js_truthy (JStr s) = (s \<noteq> [])"
| "js_truthy (JArr xs) = True"
| "js_truthy (JObj fs) = True"

text \<open>The decimal digits of a number, as a template literal \<open>${count}\<close> renders it.\<close>

definition digit_char :: "nat \<Rightarrow> char" where
  "digit_char d = (''0123456789'' ! (d mod 10))"

fun decimal :: "nat \<Rightarrow> string" where
  "decimal n = (if n < 10 then [digit_char n] else decimal (n div 10) @ [digit_char n])"

text \<open>\<open>parts.join(sep)\<close>.\<close>

fun join_with :: "string \<Rightarrow> string list \<Rightarrow> string" where
  "join_with sep [] = []"
| "join_with sep [x] = x"
| "join_with sep (x # y # ys) = x @ sep @ join_with sep (y # ys)"

text \<open>
  A value inside a template literal, \<open>${templateId}\<close>: the string itself, the digits of a
  number, and the standard renderings of the other values.
\<close>

fun js_string :: "json \<Rightarrow> string" where
  "js_string JNull = ''null''"
| "js_string (JBool b) = (if b then ''true'' else ''false'')"
| "js_string (JNum n) = (if n < 0 then CHR ''-'' # decimal (nat (- n)) else decimal (nat n))"
| "js_string (JStr s) = s"
| "js_string (JArr xs) = join_with '','' (map (\<lambda>x. if x = JNull then [] else js_string x) xs)"
| "js_string (JObj fs) = ''[object Object]''"

text \<open>\<open>result?.id\<close>: the field of an object, \<open>undefined\<close> (\<open>None\<close>) on anything else.\<close>

fun optional_id :: "json \<Rightarrow> json option" where
  "optional_id (JObj fs) = map_of fs ''id''"
| "optional_id other = None"

section \<open>Effects\<close>

text \<open>
  What a command throws. \<open>CLIError\<close> is the class of \<open>core/sdk\<close>, built as
  \<open>new CLIError(message, code, status)\<close>; \<open>OtherError\<close> is any other instance of \<open>Error\<close>
  (with its message), \<open>NonError\<close> a thrown value that is no \<open>Error\<close>.
\<close>

datatype thrown =
    CLIError string string nat
  | OtherError string
  | NonError

text \<open>
  Modelled from the spec: a Rejected Row (section 3), the element of \<open>targets.errors\<close>,
  whose type is declared in the missing \<open>commands/subscribers/helpers\<close>: row index, raw
  text, reason.
\<close>

record rejected_row =
  row_index :: nat
  raw :: string
  reason :: string

text \<open>\<open>CreateSequenceEmailInput\<close> and \<open>UpdateSequenceEmailInput\<close>, as the commands fill them.\<close>

record create_input =
  ci_subject :: string
  ci_html :: string
  ci_inboxSnippet :: "string option"
  ci_delayInterval :: "string option"
  ci_delayCount :: "int option"
  ci_editorChoice :: "string option"
  ci_cc :: "string option"
  ci_bcc :: "string option"
  ci_to :: "string option"

record update_input =
  ui_subject :: "string option"
  ui_html :: "string option"

text \<open>
  Everything a command does to the world, in the order it does it: file reads, calls of
  the remote API, output, prompts. \<open>ExecuteInvoked ws\<close> records that the Protection
  Executor called the execution callback with the working set \<open>ws\<close>.
\<close>

datatype event =
    ReadFile string
  | Unsubscribe string
  | CreateSequenceEmail string create_input
  | UpdateSequenceEmail string update_input
  | OutputJson json
  | OutputSuccess string
  | OutputError string
  | SpinnerStart string
  | SpinnerStop string
  | SpinnerFail
  | PrintCsvErrors "rejected_row list"
  | EmptyReported string
  | PreviewShown string "json list" nat
  | ConfirmPrompt string nat "json list"
  | ExecuteInvoked "string list"

text \<open>How an action handler ends: \<open>process.exit(n)\<close>, the error handler, or a return.\<close>

datatype ('e, 'r) ending = Exited nat | ErrorHandled 'e | Returned 'r

section \<open>commands/subscribers/unsubscribe.ts\<close>

text \<open>
  \<open>UnsubscribeOptions\<close>, the flags as the command line parser hands them over. The fields
  \<open>email\<close>, \<open>file\<close>, \<open>dryRun\<close>, \<open>limit\<close>, \<open>sample\<close> and \<open>confirm\<close> carry the suffix \<open>Flag\<close>
  here, which keeps them apart from the fields of the parsed options.
\<close>

record unsubscribe_options =
  emailFlag :: "string option"
  fileFlag :: "string option"
  dryRunFlag :: "bool option"
  limitFlag :: "string option"
  sampleFlag :: "string option"
  confirmFlag :: "bool option"

text \<open>The value \<open>resolveEmailTargets\<close> resolves to: \<open>targets.emails\<close>, \<open>targets.errors\<close>.\<close>

record target_set =
  emails :: "string list"
  errors :: "rejected_row list"

text \<open>\<open>emitResult(count)\<close>; \<open>isJson\<close> is \<open>output.isJson()\<close>.\<close>

definition emitResult :: "bool \<Rightarrow> nat \<Rightarrow> event list" where
  "emitResult isJson count =
     (if isJson then
        [OutputJson (JObj
           [(''success'', JBool True),
            (''error'', JNull),
            (''data'', JObj [(''updated'', JNum (int count)), (''action'', JStr ''unsubscribe'')]),
            (''meta'', JObj [(''count'', JNum (int count))])])]
      else [OutputSuccess (''Unsubscribed '' @ decimal count @ '' subscriber(s).'')])"

text \<open>
  The loop \<open>for (const email of emails) { await bento.unsubscribe(email); }\<close>.
  \<open>remote email\<close> is what the awaited call does: \<open>None\<close> when it resolves (its value is
  dropped), \<open>Some err\<close> when it rejects. A rejection leaves the loop at once.
\<close>

fun unsubscribe_each :: "(string \<Rightarrow> thrown option) \<Rightarrow> string list \<Rightarrow> event list \<times> thrown option" where
  "unsubscribe_each remote [] = ([], None)"
| "unsubscribe_each remote (e # es) =
     (case remote e of
        Some err \<Rightarrow> ([Unsubscribe e], Some err)
      | None \<Rightarrow> (case unsubscribe_each remote es of (tr, r) \<Rightarrow> (Unsubscribe e # tr, r)))"

text \<open>The \<open>execute\<close> callback of the unsubscribe command.\<close>

definition unsubscribe_execute ::
  "bool \<Rightarrow> (string \<Rightarrow> thrown option) \<Rightarrow> string list \<Rightarrow> event list \<times> (thrown + unit)" where
  "unsubscribe_execute isJson remote es =
     (case unsubscribe_each remote es of
        (tr, Some err) \<Rightarrow> (tr, Inl err)
      | (tr, None) \<Rightarrow> (tr @ emitResult isJson (length es), Inr ()))"

text \<open>
  The operation a command hands to \<open>safety.protect\<close>: the object literal
  \<open>{ name, items, formatItem, isDangerous, execute }\<close>. The callback returns what it did
  and either the error it threw or its result.
\<close>

record 'r operation_spec =
  op_name :: string
  items :: "string list"
  formatItem :: "string \<Rightarrow> json"
  isDangerous :: bool
  execute :: "string list \<Rightarrow> event list \<times> (thrown + 'r)"

definition unsubscribe_spec ::
  "bool \<Rightarrow> (string \<Rightarrow> thrown option) \<Rightarrow> target_set \<Rightarrow> unit operation_spec" where
  "unsubscribe_spec isJson remote targets =
     \<lparr>op_name = ''Unsubscribe Subscribers'',
      items = emails targets,
      formatItem = (\<lambda>e. JObj [(''email'', JStr e)]),
      isDangerous = True,
      execute = unsubscribe_execute isJson remote\<rparr>"

text \<open>
  The action handler of \<open>registerUnsubscribeCommand\<close>. Its three collaborators are imported
  from modules that are not among the sources, so the handler takes them as arguments:
  \<open>resolveTargets\<close> for \<open>resolveEmailTargets\<close>, \<open>parseOpts\<close> for \<open>Safety.parseOptions\<close>
  and \<open>safetyProtect\<close> for \<open>safety.protect\<close>. The order is the source's: the targets are
  resolved first; \<open>Safety.parseOptions(opts)\<close> is the second argument of the call of
  \<open>safety.protect\<close>, so it is evaluated after both checks on the targets and before
  \<open>safety.protect\<close> runs. Whatever is thrown inside the \<open>try\<close> goes to \<open>handleSubscriberError\<close>.
\<close>

definition unsubscribe_action ::
  "(string option \<Rightarrow> string option \<Rightarrow> event list \<times> ('e + target_set option)) \<Rightarrow>
   (unsubscribe_options \<Rightarrow> 'e + 'o) \<Rightarrow>
   (unit operation_spec \<Rightarrow> 'o \<Rightarrow> event list \<times> ('e + 'out)) \<Rightarrow>
   bool \<Rightarrow> (string \<Rightarrow> thrown option) \<Rightarrow> unsubscribe_options \<Rightarrow>
   event list \<times> ('e, 'out) ending" where
  "unsubscribe_action resolveTargets parseOpts safetyProtect isJson remote opts =
     (case resolveTargets (emailFlag opts) (fileFlag opts) of
        (t1, Inl err) \<Rightarrow> (t1, ErrorHandled err)
      | (t1, Inr None) \<Rightarrow>
          (t1 @ [OutputError ''Provide --email <email> or --file <path> to select subscribers.''],
           Exited 2)
      | (t1, Inr (Some targets)) \<Rightarrow>
          if length (errors targets) > 0 then (t1 @ [PrintCsvErrors (errors targets)], Exited 6)
          else
            (case parseOpts opts of
               Inl err \<Rightarrow> (t1, ErrorHandled err)
             | Inr sopts \<Rightarrow>
                 (case safetyProtect (unsubscribe_spec isJson remote targets) sopts of
                    (t2, Inl err) \<Rightarrow> (t1 @ t2, ErrorHandled err)
                  | (t2, Inr out) \<Rightarrow> (t1 @ t2, Returned out))))"

section \<open>The collaborators of the unsubscribe command\<close>

text \<open>
  \<open>commands/subscribers/helpers\<close> and \<open>core/safety\<close> are imported by \<open>unsubscribe.ts\<close> but
  are not among the sources. The definitions of this section follow the specification's
  description of them (sections 3, 4.1 to 4.3 and 6).
\<close>

text \<open>
  Modelled from the spec: the error kinds of sections 4.1, 4.2 and 7 that the missing
  modules raise. Reading the target file fails in three distinct ways; the option parser
  rejects \<open>--limit\<close> with \<open>--sample\<close>, a bad limit and a bad sample.
\<close>

datatype file_failure = FileNotFound | PermissionDenied | ReadFailure

datatype config_problem = LimitWithSample | BadLimit | BadSample

text \<open>
  Modelled from the spec: what reaches the \<open>catch\<close> of the handler from the missing
  modules: a configuration error of the option parser, a failure to read the target
  file, or whatever the execution callback threw (section 6: the executor does not
  swallow it).
\<close>

datatype batch_error =
    ConfigurationError config_problem
  | TargetFileError file_failure string
  | CallbackError thrown

text \<open>
  Modelled from the spec: the Target Resolver \<open>resolveEmailTargets\<close> (section 4.1), whose
  source is missing. A flag is meaningfully provided when it is a non-empty string. With
  an email, the set is that one value, or one rejected row at index 0 when the address
  rule rejects it (\<open>address_problem\<close> gives the reason, \<open>None\<close> for a well-shaped
  address). With a file, the file is read (\<open>read_file\<close> gives the error code or the text)
  and its rows are parsed (\<open>parse_rows\<close>); the three read failures are distinct errors.
  With neither, the result is \<open>None\<close>: no targets selected. The specification does not say
  what happens when both flags are given; here the email is taken.
\<close>

definition resolveEmailTargets ::
  "(string \<Rightarrow> string option) \<Rightarrow> (string \<Rightarrow> target_set) \<Rightarrow> (string \<Rightarrow> string + string) \<Rightarrow>
   string option \<Rightarrow> string option \<Rightarrow> event list \<times> (batch_error + target_set option)" where
  "resolveEmailTargets address_problem parse_rows read_file email_arg file_arg =
     (case (if truthy email_arg then email_arg else None) of
        Some e \<Rightarrow>
          ([], Inr (Some
             (case address_problem e of
                None \<Rightarrow> \<lparr>emails = [e], errors = []\<rparr>
              | Some why \<Rightarrow>
                  \<lparr>emails = [], errors = [\<lparr>row_index = 0, raw = e, reason = why\<rparr>]\<rparr>)))
      | None \<Rightarrow>
          (case (if truthy file_arg then file_arg else None) of
             Some p \<Rightarrow>
               (case read_file p of
                  Inl code \<Rightarrow>
                    ([ReadFile p],
                     Inl (TargetFileError
                            (if code = ''ENOENT'' then FileNotFound
                             else if code = ''EACCES'' then PermissionDenied
                             else ReadFailure) p))
                | Inr content \<Rightarrow> ([ReadFile p], Inr (Some (parse_rows content))))
           | None \<Rightarrow> ([], Inr None)))"

text \<open>
  Modelled from the spec: Safety Options (section 3), the typed value the missing option
  parser produces.
\<close>

record safety_options =
  dryRun :: bool
  limit :: "nat option"
  sample :: "nat option"
  confirm :: bool

text \<open>
  Modelled from the spec: the invariant of Safety Options (section 3), which the missing
  parser establishes: a limit and a sample, when present, are positive.
\<close>

definition positive_counts :: "safety_options \<Rightarrow> bool" where
  "positive_counts opts =
     ((case limit opts of None \<Rightarrow> True | Some k \<Rightarrow> 0 < k) \<and>
      (case sample opts of None \<Rightarrow> True | Some k \<Rightarrow> 0 < k))"

text \<open>
  Modelled from the spec: the reading of a flag value as a positive integer (section 4.2),
  part of the missing option parser: a non-empty string of decimal digits whose value is
  above zero; and the reading of a presence flag, which is set only when it is \<open>true\<close>.
\<close>

definition is_digit :: "char \<Rightarrow> bool" where
  "is_digit c = (c \<in> set ''0123456789'')"

definition nat_of_decimal :: "string \<Rightarrow> nat" where
  "nat_of_decimal s = foldl (\<lambda>a c. 10 * a + (of_char c - 48)) 0 s"

definition parse_positive :: "string \<Rightarrow> nat option" where
  "parse_positive s =
     (if s \<noteq> [] \<and> list_all is_digit s \<and> 0 < nat_of_decimal s then Some (nat_of_decimal s)
      else None)"

definition flag_set :: "bool option \<Rightarrow> bool" where
  "flag_set f = (f = Some True)"

text \<open>
  Modelled from the spec: the Safety Option Parser \<open>Safety.parseOptions\<close> (section 4.2),
  whose source is missing. It is pure. \<open>--limit\<close> and \<open>--sample\<close> together are a
  configuration error; each alone must be a positive integer (a non-empty string of
  decimal digits with a value above zero), anything else is a configuration error;
  \<open>--dry-run\<close> and \<open>--confirm\<close> are presence flags that default to false.
\<close>

definition parseOptions :: "unsubscribe_options \<Rightarrow> batch_error + safety_options" where
  "parseOptions opts =
     (case (limitFlag opts, sampleFlag opts) of
        (Some l, Some s) \<Rightarrow> Inl (ConfigurationError LimitWithSample)
      | (Some l, None) \<Rightarrow>
          (case parse_positive l of
             None \<Rightarrow> Inl (ConfigurationError BadLimit)
           | Some k \<Rightarrow>
               Inr \<lparr>dryRun = flag_set (dryRunFlag opts), limit = Some k, sample = None,
                    confirm = flag_set (confirmFlag opts)\<rparr>)
      | (None, Some s) \<Rightarrow>
          (case parse_positive s of
             None \<Rightarrow> Inl (ConfigurationError BadSample)
           | Some k \<Rightarrow>
               Inr \<lparr>dryRun = flag_set (dryRunFlag opts), limit = None, sample = Some k,
                    confirm = flag_set (confirmFlag opts)\<rparr>)
      | (None, None) \<Rightarrow>
          Inr \<lparr>dryRun = flag_set (dryRunFlag opts), limit = None, sample = None,
               confirm = flag_set (confirmFlag opts)\<rparr>)"

text \<open>
  Modelled from the spec: the random choice of \<open>--sample k\<close> (sections 4.3 and 9), whose source
  is missing: \<open>k\<close> items drawn without replacement, as a partial shuffle does. The random
  source is the list \<open>rs\<close>; each draw takes the item at position \<open>r mod n\<close> of the \<open>n\<close> items
  still in the pool (position 0 when the list is used up) and removes it from the pool.
\<close>

fun sample_items :: "nat list \<Rightarrow> nat \<Rightarrow> string list \<Rightarrow> string list" where
  "sample_items rs 0 xs = []"
| "sample_items rs (Suc k) [] = []"
| "sample_items rs (Suc k) (x # xs) =
     (let i = (case rs of [] \<Rightarrow> 0 | r # _ \<Rightarrow> r mod Suc (length xs))
      in ((x # xs) ! i) #
         sample_items (case rs of [] \<Rightarrow> [] | _ # rest \<Rightarrow> rest) k
           (take i (x # xs) @ drop (Suc i) (x # xs)))"

text \<open>
  Modelled from the spec: the Reduce step of the Protection Executor (section 4.3), whose
  source is missing. With a limit, the first \<open>limit\<close> items; with a sample, \<open>sample\<close> items
  drawn at random; otherwise the full set. A number above the size takes all.
\<close>

definition working_set :: "nat list \<Rightarrow> safety_options \<Rightarrow> string list \<Rightarrow> string list" where
  "working_set rs opts xs =
     (case limit opts of
        Some k \<Rightarrow> take k xs
      | None \<Rightarrow> (case sample opts of Some k \<Rightarrow> sample_items rs k xs | None \<Rightarrow> xs))"

text \<open>
  Modelled from the spec: Outcome (section 3), what the missing executor returns, with
  the terminal states of section 4.3.
\<close>

datatype 'r outcome =
    Empty
  | Previewed "json list" nat
  | Aborted
  | Rejected
  | Executed 'r

text \<open>
  Modelled from the spec: the capabilities the missing executor depends on (sections 4.3
  and 9): whether standard input is a terminal, what the user answers when asked, and
  the random source of the sampler; and the bound on the preview shown at the prompt,
  which section 9 leaves as a tunable constant.
\<close>

record protect_env =
  interactive :: bool
  answers_yes :: bool
  random_indices :: "nat list"

definition preview_bound :: nat where
  "preview_bound = 10"

text \<open>
  Modelled from the spec: what the missing executor has decided when it leaves the
  confirmation step of section 4.3: one of the terminal states that run nothing, or the
  working set to execute.
\<close>

datatype decision =
    EndEmpty
  | EndPreviewed "json list" nat
  | EndAborted
  | EndRejected
  | Proceed "string list"

text \<open>
  Modelled from the spec: the Protection Executor \<open>safety.protect\<close> up to its confirmation
  step (section 4.3, steps 1 to 4), whose source is missing. Reduce; an empty working set ends
  in Empty. The preview is the formatter applied to each item of the working set. A dry
  run ends in Previewed with the preview and the count. Otherwise the confirmation
  step: an operation that is not dangerous, or \<open>--confirm\<close>, goes to Execute; on a
  terminal the user is shown the name, the count and a bounded prefix of the preview and
  asked, and "no" ends in Aborted; without a terminal the run ends in Rejected.
\<close>

definition decide ::
  "protect_env \<Rightarrow> 'r operation_spec \<Rightarrow> safety_options \<Rightarrow> event list \<times> decision" where
  "decide env spec opts =
     (let ws = working_set (random_indices env) opts (items spec) in
      if ws = [] then ([EmptyReported (op_name spec)], EndEmpty)
      else
        (let preview = map (formatItem spec) ws in
         if dryRun opts then
           ([PreviewShown (op_name spec) preview (length ws)], EndPreviewed preview (length ws))
         else if \<not> isDangerous spec \<or> confirm opts then ([], Proceed ws)
         else if interactive env then
           ([ConfirmPrompt (op_name spec) (length ws) (take preview_bound preview)],
            if answers_yes env then Proceed ws else EndAborted)
         else ([], EndRejected)))"

text \<open>
  Modelled from the spec: the Execute step (section 4.3, step 5), whose source is missing.
  The callback is invoked once with the working set; what it throws propagates, what it
  returns is carried by the terminal state Executed.
\<close>

definition run_execute ::
  "'r operation_spec \<Rightarrow> string list \<Rightarrow> event list \<times> (batch_error + 'r outcome)" where
  "run_execute spec ws =
     (case execute spec ws of
        (tr, Inl err) \<Rightarrow> (ExecuteInvoked ws # tr, Inl (CallbackError err))
      | (tr, Inr r) \<Rightarrow> (ExecuteInvoked ws # tr, Inr (Executed r)))"

text \<open>
  Modelled from the spec: \<open>safety.protect\<close> (section 4.3), whose source is missing: the
  decision, then the Execute step when the decision is to proceed.
\<close>

definition protect ::
  "protect_env \<Rightarrow> 'r operation_spec \<Rightarrow> safety_options \<Rightarrow> event list \<times> (batch_error + 'r outcome)" where
  "protect env spec opts =
     (case decide env spec opts of
        (tr, EndEmpty) \<Rightarrow> (tr, Inr Empty)
      | (tr, EndPreviewed preview n) \<Rightarrow> (tr, Inr (Previewed preview n))
      | (tr, EndAborted) \<Rightarrow> (tr, Inr Aborted)
      | (tr, EndRejected) \<Rightarrow> (tr, Inr Rejected)
      | (tr, Proceed ws) \<Rightarrow> (case run_execute spec ws of (tr', r) \<Rightarrow> (tr @ tr', r)))"

text \<open>The working sets the execution callback was invoked with, read off a trace.\<close>

fun invocations :: "event list \<Rightarrow> string list list" where
  "invocations [] = []"
| "invocations (ExecuteInvoked ws # tr) = ws # invocations tr"
| "invocations (ev # tr) = invocations tr"

text \<open>
  The world the unsubscribe command runs in: the address rule and the row parser of the
  resolver, the files, the remote API, the output mode and the terminal.
\<close>

record world =
  address_rule :: "string \<Rightarrow> string option"
  row_parser :: "string \<Rightarrow> target_set"
  files :: "string \<Rightarrow> string + string"
  remote_unsubscribe :: "string \<Rightarrow> thrown option"
  json_mode :: bool
  terminal :: protect_env

text \<open>
  The handler of \<open>unsubscribe.ts\<close> run with its three collaborators as the
  specification describes them.
\<close>

definition unsubscribe_command ::
  "world \<Rightarrow> unsubscribe_options \<Rightarrow> event list \<times> (batch_error, unit outcome) ending" where
  "unsubscribe_command w opts =
     unsubscribe_action
       (resolveEmailTargets (address_rule w) (row_parser w) (files w))
       parseOptions
       (protect (terminal w))
       (json_mode w) (remote_unsubscribe w) opts"

section \<open>commands/sequences.ts\<close>

text \<open>
  \<open>CreateEmailOptions\<close> and \<open>UpdateEmailOptions\<close>. The field \<open>to\<close> is \<open>to_value\<close> here, and
  the optional fields of \<open>UpdateEmailOptions\<close> carry the prefix \<open>new_\<close>, which keeps them
  apart from the fields of \<open>CreateEmailOptions\<close>. The \<open>list\<close> command of the file reads
  nothing from the command line and is not modelled.
\<close>

record create_email_options =
  sequenceId :: string
  subject :: string
  html :: "string option"
  htmlFile :: "string option"
  inboxSnippet :: "string option"
  delayInterval :: "string option"
  delayCount :: "string option"
  editorChoice :: "string option"
  cc :: "string option"
  bcc :: "string option"
  to_value :: "string option"

record update_email_options =
  templateId :: string
  new_subject :: "string option"
  new_html :: "string option"
  new_htmlFile :: "string option"

definition ALLOWED_DELAY_INTERVALS :: "string list" where
  "ALLOWED_DELAY_INTERVALS = [''minutes'', ''hours'', ''days'', ''months'']"

definition MAX_TEMPLATE_HTML_BYTES :: nat where
  "MAX_TEMPLATE_HTML_BYTES = 524288"

definition MAX_DELAY_COUNT :: int where
  "MAX_DELAY_COUNT = 999"

text \<open>
  The functions of \<open>node:path\<close> and \<open>process.cwd()\<close> that \<open>resolveSafeHtmlPath\<close> calls; they
  belong to the platform, so the command takes them as given.
\<close>

record path_module =
  path_resolve :: "string \<Rightarrow> string"
  path_relative :: "string \<Rightarrow> string \<Rightarrow> string"
  path_isAbsolute :: "string \<Rightarrow> bool"
  process_cwd :: string

text \<open>
  The world of the sequence commands. \<open>read_file p\<close> is what \<open>readFile(p, "utf8")\<close> does:
  the text, or the \<open>code\<close> of the error it rejects with. The two SDK calls resolve to a
  value or reject. \<open>parseInt10 s\<close> is \<open>Number.parseInt(s, 10)\<close> when that is a finite number
  and \<open>None\<close> otherwise; \<open>number_string n\<close> is \<open>String(n)\<close>.
\<close>

record seq_world =
  paths :: path_module
  read_file :: "string \<Rightarrow> string + string"
  createSequenceEmail :: "string \<Rightarrow> create_input \<Rightarrow> thrown + json"
  updateSequenceEmail :: "string \<Rightarrow> update_input \<Rightarrow> thrown + json"
  output_isJson :: bool
  parseInt10 :: "string \<Rightarrow> int option"
  number_string :: "int \<Rightarrow> string"

text \<open>\<open>new CLIError(message, "VALIDATION_ERROR", 422)\<close>.\<close>

definition validation_error :: "string \<Rightarrow> thrown" where
  "validation_error message = CLIError message ''VALIDATION_ERROR'' 422"

fun is_validation_error :: "thrown \<Rightarrow> bool" where
  "is_validation_error (CLIError message code status) = (code = ''VALIDATION_ERROR'')"
| "is_validation_error other = False"

definition validateHtmlSize :: "string \<Rightarrow> thrown + unit" where
  "validateHtmlSize h =
     (if length h > MAX_TEMPLATE_HTML_BYTES then
        Inl (validation_error
               (''HTML content must be under '' @ decimal MAX_TEMPLATE_HTML_BYTES @ '' bytes.''))
      else Inr ())"

text \<open>The pattern \<open>/^sequence_[a-zA-Z0-9_-]+$/\<close>.\<close>

definition id_char :: "char \<Rightarrow> bool" where
  "id_char c =
     (c \<in> set ''abcdefghijklmnopqrstuvwxyzABCDEFGHIJKLMNOPQRSTUVWXYZ0123456789_-'')"

definition validateSequenceId :: "string \<Rightarrow> thrown + unit" where
  "validateSequenceId sid =
     (if take 9 sid = ''sequence_'' \<and> drop 9 sid \<noteq> [] \<and> list_all id_char (drop 9 sid) then Inr ()
      else Inl (validation_error ''Sequence ID must be a valid prefix_id (e.g. sequence_abc123).''))"

text \<open>
  The local constant \<open>isOutsideProject\<close> of \<open>resolveSafeHtmlPath\<close>: the path of the
  argument relative to the working directory starts with \<open>..\<close> or is absolute.
\<close>

definition isOutsideProject :: "path_module \<Rightarrow> string \<Rightarrow> bool" where
  "isOutsideProject pm inputPath =
     (let resolvedPath = path_resolve pm inputPath;
          projectRoot = process_cwd pm;
          relativePath = path_relative pm projectRoot resolvedPath
      in take 2 relativePath = ''..'' \<or> path_isAbsolute pm relativePath)"

definition resolveSafeHtmlPath :: "path_module \<Rightarrow> string \<Rightarrow> thrown + string" where
  "resolveSafeHtmlPath pm inputPath =
     (if isOutsideProject pm inputPath then
        Inl (validation_error ''HTML file path must be within the current working directory.'')
      else Inr (path_resolve pm inputPath))"

text \<open>
  The \<open>catch\<close> of \<open>resolveHtmlInput\<close>, given the \<open>code\<close> of the caught error (\<open>None\<close> when it
  has none): whatever was caught is replaced by one of three validation errors.
\<close>

definition html_read_failure :: "string \<Rightarrow> string option \<Rightarrow> thrown" where
  "html_read_failure htmlFile_arg code =
     (if code = Some ''ENOENT'' then validation_error (''HTML file not found: '' @ htmlFile_arg)
      else if code = Some ''EACCES'' then
        validation_error (''Cannot read HTML file (permission denied): '' @ htmlFile_arg)
      else validation_error (''Unable to read HTML file: '' @ htmlFile_arg))"

text \<open>
  The \<open>code\<close> property of a thrown value, as the \<open>catch\<close> reads it. A \<open>CLIError\<close> is built
  with its code as second argument; whether or not the class keeps it under the name
  \<open>code\<close>, the \<open>catch\<close> ends in its last branch, since that code is neither \<open>ENOENT\<close>
  nor \<open>EACCES\<close>.
\<close>

fun code_of :: "thrown \<Rightarrow> string option" where
  "code_of (CLIError message code status) = Some code"
| "code_of other = None"

text \<open>
  The \<open>try\<close> block of \<open>resolveHtmlInput\<close> with its \<open>catch\<close>. The errors of
  \<open>resolveSafeHtmlPath\<close> and of \<open>validateHtmlSize\<close> are thrown inside the \<open>try\<close>, so the
  \<open>catch\<close> replaces them as it replaces the errors of \<open>readFile\<close>.
\<close>

definition read_html_file ::
  "path_module \<Rightarrow> (string \<Rightarrow> string + string) \<Rightarrow> string \<Rightarrow> event list \<times> (thrown + string)" where
  "read_html_file pm rf htmlFile_arg =
     (case resolveSafeHtmlPath pm htmlFile_arg of
        Inl err \<Rightarrow> ([], Inl (html_read_failure htmlFile_arg (code_of err)))
      | Inr safePath \<Rightarrow>
          (case rf safePath of
             Inl code \<Rightarrow> ([ReadFile safePath], Inl (html_read_failure htmlFile_arg (Some code)))
           | Inr content \<Rightarrow>
               (case validateHtmlSize content of
                  Inl err \<Rightarrow>
                    ([ReadFile safePath], Inl (html_read_failure htmlFile_arg (code_of err)))
                | Inr u \<Rightarrow> ([ReadFile safePath], Inr content))))"

text \<open>
  \<open>resolveHtmlInput\<close>. After the first check exactly one of the two arguments is truthy,
  so when \<open>html\<close> is falsy \<open>htmlFile\<close> is a non-empty string; the branch for an absent
  \<open>htmlFile\<close> cannot be reached and is given the error the \<open>catch\<close> would produce.
\<close>

definition resolveHtmlInput ::
  "path_module \<Rightarrow> (string \<Rightarrow> string + string) \<Rightarrow> string option \<Rightarrow> string option \<Rightarrow>
   event list \<times> (thrown + string)" where
  "resolveHtmlInput pm rf html_arg htmlFile_arg =
     (let hasInlineHtml = truthy html_arg;
          hasHtmlFile = truthy htmlFile_arg
      in if hasInlineHtml = hasHtmlFile then
           ([], Inl (validation_error ''Provide exactly one of --html or --html-file.''))
         else
           (case (if truthy html_arg then html_arg else None) of
              Some h \<Rightarrow>
                (case validateHtmlSize h of Inl err \<Rightarrow> ([], Inl err) | Inr u \<Rightarrow> ([], Inr h))
            | None \<Rightarrow>
                (case htmlFile_arg of
                   Some p \<Rightarrow> read_html_file pm rf p
                 | None \<Rightarrow> ([], Inl (html_read_failure ''undefined'' None)))))"

definition resolveOptionalHtmlInput ::
  "path_module \<Rightarrow> (string \<Rightarrow> string + string) \<Rightarrow> string option \<Rightarrow> string option \<Rightarrow>
   event list \<times> (thrown + string option)" where
  "resolveOptionalHtmlInput pm rf html_arg htmlFile_arg =
     (if \<not> truthy html_arg \<and> \<not> truthy htmlFile_arg then ([], Inr None)
      else
        (case resolveHtmlInput pm rf html_arg htmlFile_arg of
           (tr, Inl err) \<Rightarrow> (tr, Inl err)
         | (tr, Inr h) \<Rightarrow> (tr, Inr (Some h))))"

definition validateDelayOptions ::
  "seq_world \<Rightarrow> string option \<Rightarrow> string option \<Rightarrow> thrown + unit" where
  "validateDelayOptions w di dc =
     (if (truthy di \<and> \<not> truthy dc) \<or> (\<not> truthy di \<and> truthy dc) then
        Inl (validation_error ''--delay-interval and --delay-count must be provided together.'')
      else if truthy di \<and> (case di of Some d \<Rightarrow> d \<notin> set ALLOWED_DELAY_INTERVALS | None \<Rightarrow> False) then
        Inl (validation_error
               (''--delay-interval must be one of: '' @ join_with '', '' ALLOWED_DELAY_INTERVALS))
      else
        (case (if truthy dc then dc else None) of
           Some c \<Rightarrow>
             (case parseInt10 w c of
                None \<Rightarrow> Inl (validation_error ''--delay-count must be a positive integer.'')
              | Some parsed \<Rightarrow>
                  if parsed \<le> 0 \<or> number_string w parsed \<noteq> c then
                    Inl (validation_error ''--delay-count must be a positive integer.'')
                  else if parsed > MAX_DELAY_COUNT then
                    Inl (validation_error
                           (''--delay-count must be less than or equal to '' @
                            decimal (nat MAX_DELAY_COUNT) @ ''.''))
                  else Inr ())
         | None \<Rightarrow> Inr ()))"

text \<open>\<open>handleError\<close>: the message is printed and the process exits 1.\<close>

fun error_message :: "thrown \<Rightarrow> string" where
  "error_message (CLIError message code status) = message"
| "error_message (OtherError message) = message"
| "error_message NonError = ''An unexpected error occurred.''"

definition handleError :: "thrown \<Rightarrow> event list \<times> (thrown, unit) ending" where
  "handleError err = ([OutputError (error_message err)], Exited 1)"

text \<open>
  The \<open>catch\<close> of both actions, \<open>output.failSpinner(); handleError(error);\<close>, after the
  events \<open>earlier\<close> of the \<open>try\<close> block.
\<close>

definition action_catch :: "event list \<Rightarrow> thrown \<Rightarrow> event list \<times> (thrown, unit) ending" where
  "action_catch earlier err =
     (case handleError err of (tr, e) \<Rightarrow> (earlier @ SpinnerFail # tr, e))"

definition result_envelope :: "json \<Rightarrow> json" where
  "result_envelope result =
     JObj [(''success'', JBool True), (''error'', JNull), (''data'', result),
           (''meta'', JObj [(''count'', JNum (if js_truthy result then 1 else 0))])]"

text \<open>The action of \<open>sequences create-email\<close>.\<close>

definition create_email_action ::
  "seq_world \<Rightarrow> create_email_options \<Rightarrow> event list \<times> (thrown, unit) ending" where
  "create_email_action w options =
     (case validateSequenceId (sequenceId options) of
        Inl err \<Rightarrow> action_catch [] err
      | Inr u \<Rightarrow>
          (case resolveHtmlInput (paths w) (read_file w) (html options) (htmlFile options) of
             (t1, Inl err) \<Rightarrow> action_catch t1 err
           | (t1, Inr h) \<Rightarrow>
               (case validateDelayOptions w (delayInterval options) (delayCount options) of
                  Inl err \<Rightarrow> action_catch t1 err
                | Inr u' \<Rightarrow>
                    (let input =
                           \<lparr>ci_subject = subject options, ci_html = h,
                            ci_inboxSnippet = inboxSnippet options,
                            ci_delayInterval = delayInterval options,
                            ci_delayCount =
                              (case (if truthy (delayCount options) then delayCount options else None) of
                                 Some c \<Rightarrow> parseInt10 w c
                               | None \<Rightarrow> None),
                            ci_editorChoice = editorChoice options,
                            ci_cc = cc options, ci_bcc = bcc options, ci_to = to_value options\<rparr>;
                         t2 = t1 @ [SpinnerStart ''Creating sequence email...'',
                                    CreateSequenceEmail (sequenceId options) input]
                     in case createSequenceEmail w (sequenceId options) input of
                          Inl err \<Rightarrow> action_catch t2 err
                        | Inr result \<Rightarrow>
                            (t2 @ [SpinnerStop ''Sequence email created''] @
                             (if output_isJson w then [OutputJson (result_envelope result)]
                              else
                                (case (case optional_id result of
                                         Some i \<Rightarrow> if js_truthy i then Some i else None
                                       | None \<Rightarrow> None) of
                                   Some i \<Rightarrow>
                                     [OutputSuccess
                                        (''Created email '' @ js_string i @ '' in sequence '' @
                                         sequenceId options)]
                                 | None \<Rightarrow>
                                     [OutputSuccess
                                        (''Created email in sequence '' @ sequenceId options)])),
                             Returned ())))))"

text \<open>The action of \<open>sequences update-email\<close>.\<close>

definition update_email_action ::
  "seq_world \<Rightarrow> update_email_options \<Rightarrow> event list \<times> (thrown, unit) ending" where
  "update_email_action w options =
     (case resolveOptionalHtmlInput (paths w) (read_file w) (new_html options) (new_htmlFile options) of
        (t1, Inl err) \<Rightarrow> action_catch t1 err
      | (t1, Inr h) \<Rightarrow>
          if \<not> truthy (new_subject options) \<and> \<not> truthy h then
            action_catch t1
              (validation_error
                 ''At least one of --subject, --html, or --html-file must be provided.'')
          else
            (let input = \<lparr>ui_subject = new_subject options, ui_html = h\<rparr>;
                 t2 = t1 @ [SpinnerStart ''Updating sequence email...'',
                            UpdateSequenceEmail (templateId options) input]
             in case updateSequenceEmail w (templateId options) input of
                  Inl err \<Rightarrow> action_catch t2 err
                | Inr result \<Rightarrow>
                    (t2 @ [SpinnerStop ''Sequence email updated''] @
                     (if output_isJson w then [OutputJson (result_envelope result)]
                      else [OutputSuccess (''Updated email template '' @ templateId options)]),
                     Returned ())))"

section \<open>Sample inputs\<close>

text \<open>
  An implementation of the path functions for POSIX paths, to run the commands on
  examples: a path is split at \<open>/\<close>, empty and \<open>.\<close> segments are dropped and \<open>..\<close>
  removes the segment before it; the relative path climbs out of what is left of the
  first path and descends into what is left of the second.
\<close>

fun split_at :: "char \<Rightarrow> string \<Rightarrow> string list" where
  "split_at sep [] = [[]]"
| "split_at sep (c # cs) =
     (if c = sep then [] # split_at sep cs
      else (case split_at sep cs of [] \<Rightarrow> [[c]] | seg # segs \<Rightarrow> (c # seg) # segs))"

fun normalize_segments :: "string list \<Rightarrow> string list \<Rightarrow> string list" where
  "normalize_segments acc [] = rev acc"
| "normalize_segments acc (seg # segs) =
     (if seg = [] \<or> seg = ''.'' then normalize_segments acc segs
      else if seg = ''..'' then normalize_segments (case acc of [] \<Rightarrow> [] | a # rest \<Rightarrow> rest) segs
      else normalize_segments (seg # acc) segs)"

definition posix_isAbsolute :: "string \<Rightarrow> bool" where
  "posix_isAbsolute p = (case p of [] \<Rightarrow> False | c # cs \<Rightarrow> c = CHR ''/'')"

definition posix_segments :: "string \<Rightarrow> string \<Rightarrow> string list" where
  "posix_segments wd p =
     normalize_segments [] (split_at (CHR ''/'') (if posix_isAbsolute p then p else wd @ ''/'' @ p))"

definition posix_resolve :: "string \<Rightarrow> string \<Rightarrow> string" where
  "posix_resolve wd p = CHR ''/'' # join_with ''/'' (posix_segments wd p)"

fun drop_common :: "string list \<Rightarrow> string list \<Rightarrow> string list \<times> string list" where
  "drop_common (a # as) (b # bs) = (if a = b then drop_common as bs else (a # as, b # bs))"
| "drop_common as bs = (as, bs)"

definition posix_relative :: "string \<Rightarrow> string \<Rightarrow> string \<Rightarrow> string" where
  "posix_relative wd from_path to_path =
     (case drop_common (posix_segments wd from_path) (posix_segments wd to_path) of
        (up, down) \<Rightarrow> join_with ''/'' (replicate (length up) ''..'' @ down))"

definition posix_paths :: "string \<Rightarrow> path_module" where
  "posix_paths wd =
     \<lparr>path_resolve = posix_resolve wd, path_relative = posix_relative wd,
      path_isAbsolute = posix_isAbsolute, process_cwd = wd\<rparr>"

text \<open>A remote API on which every call resolves, and one that rejects one address.\<close>

definition always_resolves :: "string \<Rightarrow> thrown option" where
  "always_resolves e = None"

definition fails_on :: "string \<Rightarrow> string \<Rightarrow> thrown option" where
  "fails_on bad e = (if e = bad then Some (OtherError ''rejected by the API'') else None)"

text \<open>
  A world for the unsubscribe command: an address is well-shaped when it has an \<open>@\<close>;
  the rows of a file are its non-blank lines, a well-shaped line accepted once and an
  ill-shaped line rejected under its line number; one file, \<open>list.csv\<close>, with two
  addresses; no terminal.
\<close>

definition at_sign_rule :: "string \<Rightarrow> string option" where
  "at_sign_rule e = (if CHR ''@'' \<in> set e then None else Some ''invalid email'')"

fun collect_rows :: "nat \<Rightarrow> string list \<Rightarrow> target_set \<Rightarrow> target_set" where
  "collect_rows n [] acc = acc"
| "collect_rows n (l # ls) acc =
     collect_rows (Suc n) ls
       (if l = [] then acc
        else (case at_sign_rule l of
                None \<Rightarrow> if l \<in> set (emails acc) then acc else acc\<lparr>emails := emails acc @ [l]\<rparr>
              | Some why \<Rightarrow>
                  acc\<lparr>errors := errors acc @ [\<lparr>row_index = n, raw = l, reason = why\<rparr>]\<rparr>))"

definition line_rows :: "string \<Rightarrow> target_set" where
  "line_rows content = collect_rows 1 (split_at (CHR 0x0A) content) \<lparr>emails = [], errors = []\<rparr>"

definition list_file :: "string \<Rightarrow> string + string" where
  "list_file p =
     (if p = ''list.csv'' then Inr (''a@x.com'' @ [CHR 0x0A] @ ''b@x.com'') else Inl ''ENOENT'')"

definition batch_terminal :: protect_env where
  "batch_terminal = \<lparr>interactive = False, answers_yes = False, random_indices = []\<rparr>"

definition declining_terminal :: protect_env where
  "declining_terminal = \<lparr>interactive = True, answers_yes = False, random_indices = []\<rparr>"

definition sample_world :: world where
  "sample_world =
     \<lparr>address_rule = at_sign_rule, row_parser = line_rows, files = list_file,
      remote_unsubscribe = always_resolves, json_mode = False, terminal = batch_terminal\<rparr>"

text \<open>
  A world for the sequence commands: the working directory \<open>/work\<close> with one file
  \<open>/work/mail.html\<close>, an SDK whose calls resolve to a template with an id, decimal
  numbers.
\<close>

definition mail_file :: "string \<Rightarrow> string + string" where
  "mail_file p = (if p = ''/work/mail.html'' then Inr ''<p>Hello</p>'' else Inl ''ENOENT'')"

definition decimal_parseInt :: "string \<Rightarrow> int option" where
  "decimal_parseInt s =
     (if s \<noteq> [] \<and> list_all is_digit s then Some (int (nat_of_decimal s)) else None)"

definition created_template :: "string \<Rightarrow> create_input \<Rightarrow> thrown + json" where
  "created_template sid input = Inr (JObj [(''id'', JNum 7)])"

definition updated_template :: "string \<Rightarrow> update_input \<Rightarrow> thrown + json" where
  "updated_template tid input = Inr (JObj [(''id'', JNum 12345)])"

definition number_to_string :: "int \<Rightarrow> string" where
  "number_to_string n = js_string (JNum n)"

definition work_world :: seq_world where
  "work_world =
     \<lparr>paths = posix_paths ''/work'', read_file = mail_file,
      createSequenceEmail = created_template, updateSequenceEmail = updated_template,
      output_isJson = False, parseInt10 = decimal_parseInt, number_string = number_to_string\<rparr>"

text \<open>Inputs of the Protection Executor: two accepted targets, and options with no flag set.\<close>

definition two_targets :: target_set where
  "two_targets = \<lparr>emails = [''a@x.com'', ''b@x.com''], errors = []\<rparr>"


text \<open>Invocations of the sequence commands.\<close>

definition create_from_outside :: create_email_options where
  "create_from_outside =
     \<lparr>sequenceId = ''sequence_1'', subject = ''Hello'', html = None,
      htmlFile = Some ''../secret.html'', inboxSnippet = None, delayInterval = None,
      delayCount = None, editorChoice = None, cc = None, bcc = None, to_value = None\<rparr>"

definition update_from_outside :: update_email_options where
  "update_from_outside =
     \<lparr>templateId = ''12345'', new_subject = Some ''Hello'', new_html = None,
      new_htmlFile = Some ''../secret.html''\<rparr>"

definition create_without_html :: create_email_options where
  "create_without_html =
     \<lparr>sequenceId = ''sequence_1'', subject = ''Hello'', html = None, htmlFile = None,
      inboxSnippet = None, delayInterval = None, delayCount = None, editorChoice = None,
      cc = None, bcc = None, to_value = None\<rparr>"

definition update_with_both :: update_email_options where
  "update_with_both =
     \<lparr>templateId = ''12345'', new_subject = None, new_html = Some ''<p>Inline</p>'',
      new_htmlFile = Some ''mail.html''\<rparr>"

section \<open>Properties of the execution callback\<close>

lemma unsubscribe_each_all_resolve:
  "list_all (\<lambda>e. remote e = None) es \<Longrightarrow> unsubscribe_each remote es = (map Unsubscribe es, None)"
  by (induction es) simp_all

text \<open>
  C8. In machine-readable mode (\<open>output.isJson()\<close>) an execution in which every remote
  call resolves emits, after the calls, exactly one JSON value: an object with the four
  fields \<open>success\<close>, \<open>error\<close>, \<open>data\<close>, \<open>meta\<close> in this order, where \<open>success\<close> is
  \<open>true\<close>, \<open>error\<close> is \<open>null\<close>, \<open>data\<close> holds the number of updated targets and the
  action name \<open>unsubscribe\<close>, and \<open>meta\<close> holds the count of targets. Both numbers are the
  number of targets the callback was given.
\<close>

theorem unsubscribe_success_envelope:
  assumes "list_all (\<lambda>e. remote e = None) es"
  shows "unsubscribe_execute True remote es =
           (map Unsubscribe es @
            [OutputJson (JObj
               [(''success'', JBool True),
                (''error'', JNull),
                (''data'', JObj [(''updated'', JNum (int (length es))),
                               (''action'', JStr ''unsubscribe'')]),
                (''meta'', JObj [(''count'', JNum (int (length es)))])])],
            Inr ())"
  using unsubscribe_each_all_resolve [OF assms]
  by (simp add: unsubscribe_execute_def emitResult_def)

theorem unsubscribe_success_envelope_witness:
  "list_all (\<lambda>e. always_resolves e = None) [''a@x.com'', ''b@x.com''] \<and>
   unsubscribe_execute True always_resolves [''a@x.com'', ''b@x.com''] =
     ([Unsubscribe ''a@x.com'', Unsubscribe ''b@x.com'',
       OutputJson (JObj
         [(''success'', JBool True),
          (''error'', JNull),
          (''data'', JObj [(''updated'', JNum 2), (''action'', JStr ''unsubscribe'')]),
          (''meta'', JObj [(''count'', JNum 2)])])],
      Inr ())"
proof -
  have h: "list_all (\<lambda>e. always_resolves e = None) [''a@x.com'', ''b@x.com'']"
    by (simp add: always_resolves_def)
  show ?thesis
    using h unsubscribe_success_envelope [OF h] by simp
qed

lemma unsubscribe_each_first_failure:
  "i < length es \<Longrightarrow> remote (es ! i) = Some err \<Longrightarrow> (\<forall>j<i. remote (es ! j) = None) \<Longrightarrow>
   unsubscribe_each remote es = (map Unsubscribe (take (Suc i) es), Some err)"
proof (induction es arbitrary: i)
  case Nil
  then show ?case by simp
next
  case (Cons e es)
  show ?case
  proof (cases i)
    case 0
    with Cons.prems show ?thesis by simp
  next
    case (Suc k)
    from Cons.prems Suc have head: "remote e = None" by auto
    from Cons.prems Suc have "k < length es" "remote (es ! k) = Some err"
      by simp_all
    moreover from Cons.prems Suc have "\<forall>j<k. remote (es ! j) = None" by auto
    ultimately have "unsubscribe_each remote es = (map Unsubscribe (take (Suc k) es), Some err)"
      by (rule Cons.IH)
    with head Suc show ?thesis by simp
  qed
qed

text \<open>
  C1, as the claim states it, fails: the callback has no \<open>try\<close> around the awaited call,
  so a rejection leaves the loop. With five targets and a remote call that rejects the
  third, the fourth and fifth are never attempted, and the callback ends with the error
  instead of a count of successes and a named failure.
\<close>

theorem unsubscribe_fail_fast_counterexample:
  "unsubscribe_execute False (fails_on ''c@x.com'')
     [''a@x.com'', ''b@x.com'', ''c@x.com'', ''d@x.com'', ''e@x.com''] =
   ([Unsubscribe ''a@x.com'', Unsubscribe ''b@x.com'', Unsubscribe ''c@x.com''],
    Inl (OtherError ''rejected by the API'')) \<and>
   Unsubscribe ''d@x.com'' \<notin> set (fst (unsubscribe_execute False (fails_on ''c@x.com'')
     [''a@x.com'', ''b@x.com'', ''c@x.com'', ''d@x.com'', ''e@x.com''])) \<and>
   Unsubscribe ''e@x.com'' \<notin> set (fst (unsubscribe_execute False (fails_on ''c@x.com'')
     [''a@x.com'', ''b@x.com'', ''c@x.com'', ''d@x.com'', ''e@x.com'']))"
  by (simp add: unsubscribe_execute_def fails_on_def)

text \<open>
  C1, amended. When the remote call rejects for the first time on target \<open>i\<close> (counted
  from 0) of the targets \<open>es\<close>, the callback has attempted exactly the targets up to and
  including \<open>i\<close>, in order; the targets after \<open>i\<close> are not attempted, no result is
  emitted, and the callback ends with the error the call rejected with.
\<close>

theorem unsubscribe_stops_at_first_failure:
  assumes "i < length es" and "remote (es ! i) = Some err"
    and "\<forall>j<i. remote (es ! j) = None"
  shows "unsubscribe_execute isJson remote es = (map Unsubscribe (take (Suc i) es), Inl err)"
  using unsubscribe_each_first_failure [OF assms]
  by (simp add: unsubscribe_execute_def)

theorem unsubscribe_stops_at_first_failure_witness:
  "(2::nat) < length [''a@x.com'', ''b@x.com'', ''c@x.com'', ''d@x.com'', ''e@x.com''] \<and>
   fails_on ''c@x.com'' ([''a@x.com'', ''b@x.com'', ''c@x.com'', ''d@x.com'', ''e@x.com''] ! 2) =
     Some (OtherError ''rejected by the API'') \<and>
   fails_on ''c@x.com'' ''a@x.com'' = None \<and> fails_on ''c@x.com'' ''b@x.com'' = None \<and>
   unsubscribe_execute True (fails_on ''c@x.com'')
     [''a@x.com'', ''b@x.com'', ''c@x.com'', ''d@x.com'', ''e@x.com''] =
   ([Unsubscribe ''a@x.com'', Unsubscribe ''b@x.com'', Unsubscribe ''c@x.com''],
    Inl (OtherError ''rejected by the API''))"
proof -
  let ?es = "[''a@x.com'', ''b@x.com'', ''c@x.com'', ''d@x.com'', ''e@x.com'']"
  have h1: "(2::nat) < length ?es" by simp
  have h2: "fails_on ''c@x.com'' (?es ! 2) = Some (OtherError ''rejected by the API'')"
    by (simp add: fails_on_def)
  have h3: "\<forall>j<2. fails_on ''c@x.com'' (?es ! j) = None"
    by (simp add: fails_on_def less_Suc_eq numeral_2_eq_2)
  have h4: "fails_on ''c@x.com'' ''a@x.com'' = None" "fails_on ''c@x.com'' ''b@x.com'' = None"
    by (simp_all add: fails_on_def)
  show ?thesis
    using unsubscribe_stops_at_first_failure [OF h1 h2 h3, of True] h2 h4
    by simp
qed

section \<open>Properties of the action handler\<close>

text \<open>
  C5. When the resolved target set holds at least one rejected row, the handler hands
  every rejected row to \<open>printCsvErrors\<close> and exits with code 6. Nothing else follows the
  events of the resolution: the options are not parsed, \<open>safety.protect\<close> is not entered
  and no target is executed.
\<close>

theorem rejected_rows_exit_6:
  assumes "resolveTargets (emailFlag opts) (fileFlag opts) = (t1, Inr (Some targets))"
    and "errors targets \<noteq> []"
  shows "unsubscribe_action resolveTargets parseOpts safetyProtect isJson remote opts =
           (t1 @ [PrintCsvErrors (errors targets)], Exited 6)"
  using assms by (simp add: unsubscribe_action_def)

theorem rejected_rows_exit_6_witness:
  "resolveEmailTargets at_sign_rule line_rows list_file (Some ''not-an-email'') None =
     ([], Inr (Some \<lparr>emails = [],
                      errors = [\<lparr>row_index = 0, raw = ''not-an-email'', reason = ''invalid email''\<rparr>]\<rparr>)) \<and>
   unsubscribe_command sample_world
     \<lparr>emailFlag = Some ''not-an-email'', fileFlag = None, dryRunFlag = None,
      limitFlag = None, sampleFlag = None, confirmFlag = Some True\<rparr> =
     ([PrintCsvErrors [\<lparr>row_index = 0, raw = ''not-an-email'', reason = ''invalid email''\<rparr>]],
      Exited 6)"
proof -
  let ?opts = "\<lparr>emailFlag = Some ''not-an-email'', fileFlag = None, dryRunFlag = None,
      limitFlag = None, sampleFlag = None, confirmFlag = Some True\<rparr>"
  let ?ts = "\<lparr>emails = [],
      errors = [\<lparr>row_index = 0, raw = ''not-an-email'', reason = ''invalid email''\<rparr>]\<rparr>"
  have h1: "resolveEmailTargets at_sign_rule line_rows list_file (emailFlag ?opts) (fileFlag ?opts) =
      ([], Inr (Some ?ts))"
    by (simp add: resolveEmailTargets_def at_sign_rule_def)
  have h2: "errors ?ts \<noteq> []" by simp
  show ?thesis
    using h1 rejected_rows_exit_6 [where resolveTargets = "resolveEmailTargets at_sign_rule line_rows list_file"
        and opts = ?opts and parseOpts = parseOptions and safetyProtect = "protect batch_terminal"
        and isJson = False and remote = always_resolves, OF h1 h2]
    by (simp add: unsubscribe_command_def sample_world_def)
qed

text \<open>
  C6. When neither \<open>--email\<close> nor \<open>--file\<close> is a non-empty string, target resolution
  gives \<open>None\<close> (no targets selected) without reading anything, not an empty target set,
  and the command prints the usage message and exits with code 2.
\<close>

theorem no_selection_exit_2:
  assumes "\<not> truthy (emailFlag opts)" and "\<not> truthy (fileFlag opts)"
  shows "resolveEmailTargets rule rows rf (emailFlag opts) (fileFlag opts) = ([], Inr None) \<and>
         unsubscribe_command w opts =
           ([OutputError ''Provide --email <email> or --file <path> to select subscribers.''],
            Exited 2)"
  using assms
  by (simp add: resolveEmailTargets_def unsubscribe_command_def unsubscribe_action_def)

theorem no_selection_exit_2_witness:
  "\<not> truthy (Some '''') \<and>
   resolveEmailTargets at_sign_rule line_rows list_file (Some '''') (Some '''') = ([], Inr None) \<and>
   unsubscribe_command sample_world
     \<lparr>emailFlag = Some '''', fileFlag = Some '''', dryRunFlag = None,
      limitFlag = None, sampleFlag = None, confirmFlag = None\<rparr> =
     ([OutputError ''Provide --email <email> or --file <path> to select subscribers.''],
      Exited 2)"
proof -
  let ?opts = "\<lparr>emailFlag = Some '''', fileFlag = Some '''', dryRunFlag = None,
      limitFlag = None, sampleFlag = None, confirmFlag = None\<rparr>"
  have h1: "\<not> truthy (emailFlag ?opts)" by simp
  have h2: "\<not> truthy (fileFlag ?opts)" by simp
  show ?thesis
    using no_selection_exit_2 [OF h1 h2, of at_sign_rule line_rows list_file sample_world]
    by simp
qed

text \<open>
  C2, as the claim states it, fails: the handler awaits \<open>resolveEmailTargets\<close> before it
  evaluates \<open>Safety.parseOptions(opts)\<close>. With \<open>--file list.csv --limit 5 --sample 5\<close>
  the file is read, and only then is the configuration error raised.
\<close>

theorem limit_with_sample_counterexample:
  "unsubscribe_command sample_world
     \<lparr>emailFlag = None, fileFlag = Some ''list.csv'', dryRunFlag = None,
      limitFlag = Some ''5'', sampleFlag = Some ''5'', confirmFlag = None\<rparr> =
   ([ReadFile ''list.csv''], ErrorHandled (ConfigurationError LimitWithSample))"
  by code_simp

lemma parseOptions_limit_with_sample:
  "limitFlag opts = Some l \<Longrightarrow> sampleFlag opts = Some s \<Longrightarrow>
   parseOptions opts = Inl (ConfigurationError LimitWithSample)"
  by (simp add: parseOptions_def)

text \<open>
  C2, amended. When the option parser rejects the options of an invocation with an
  error (as it rejects \<open>--limit\<close> together with \<open>--sample\<close>), \<open>safety.protect\<close> is never
  entered, so the execution callback is not invoked. The error is raised after target
  resolution: the events of the resolution (the read of a target file among them) come
  first, and the error reaches the error handler only when resolution returned targets
  with no rejected row. When resolution throws, selects nothing or rejects a row, the
  command ends as it does for any options: with that error, with exit code 2, or with
  exit code 6.
\<close>

theorem option_error_after_resolution:
  assumes "parseOpts opts = Inl err"
  shows "unsubscribe_action resolveTargets parseOpts safetyProtect isJson remote opts =
           (case resolveTargets (emailFlag opts) (fileFlag opts) of
              (t1, Inl e) \<Rightarrow> (t1, ErrorHandled e)
            | (t1, Inr None) \<Rightarrow>
                (t1 @ [OutputError ''Provide --email <email> or --file <path> to select subscribers.''],
                 Exited 2)
            | (t1, Inr (Some targets)) \<Rightarrow>
                if errors targets \<noteq> [] then (t1 @ [PrintCsvErrors (errors targets)], Exited 6)
                else (t1, ErrorHandled err))"
  using assms
  by (simp add: unsubscribe_action_def split: prod.split sum.split option.split)

theorem option_error_after_resolution_witness:
  "parseOptions
     \<lparr>emailFlag = Some ''a@x.com'', fileFlag = None, dryRunFlag = None,
      limitFlag = Some ''2'', sampleFlag = Some ''3'', confirmFlag = Some True\<rparr> =
     Inl (ConfigurationError LimitWithSample) \<and>
   unsubscribe_command sample_world
     \<lparr>emailFlag = Some ''a@x.com'', fileFlag = None, dryRunFlag = None,
      limitFlag = Some ''2'', sampleFlag = Some ''3'', confirmFlag = Some True\<rparr> =
     ([], ErrorHandled (ConfigurationError LimitWithSample))"
proof -
  let ?opts = "\<lparr>emailFlag = Some ''a@x.com'', fileFlag = None, dryRunFlag = None,
      limitFlag = Some ''2'', sampleFlag = Some ''3'', confirmFlag = Some True\<rparr>"
  have h: "parseOptions ?opts = Inl (ConfigurationError LimitWithSample)"
    by (simp add: parseOptions_limit_with_sample)
  have r: "resolveEmailTargets at_sign_rule line_rows list_file (Some ''a@x.com'') None =
      ([], Inr (Some \<lparr>emails = [''a@x.com''], errors = []\<rparr>))"
    by (simp add: resolveEmailTargets_def at_sign_rule_def)
  show ?thesis
    using h option_error_after_resolution [where parseOpts = parseOptions and opts = ?opts
        and resolveTargets = "resolveEmailTargets at_sign_rule line_rows list_file"
        and safetyProtect = "protect batch_terminal" and isJson = False
        and remote = always_resolves, OF h]
    by (simp add: r unsubscribe_command_def sample_world_def)
qed

section \<open>Properties of the Protection Executor\<close>

lemma sample_items_nonempty: "0 < k \<Longrightarrow> xs \<noteq> [] \<Longrightarrow> sample_items rs k xs \<noteq> []"
  by (cases k; cases xs) (simp_all add: Let_def)

lemma working_set_nonempty:
  "positive_counts opts \<Longrightarrow> xs \<noteq> [] \<Longrightarrow> working_set rs opts xs \<noteq> []"
  by (auto simp: positive_counts_def working_set_def sample_items_nonempty split: option.splits)

lemma parse_positive_gt_0: "parse_positive s = Some k \<Longrightarrow> 0 < k"
  by (auto simp: parse_positive_def split: if_splits)

text \<open>Every value the option parser produces has the invariant of Safety Options.\<close>

lemma parseOptions_positive_counts: "parseOptions flags = Inr opts \<Longrightarrow> positive_counts opts"
  by (auto simp: parseOptions_def positive_counts_def split: option.splits dest: parse_positive_gt_0)

text \<open>
  C3. For a non-empty sequence of accepted targets and Safety Options with \<open>dryRun\<close> set
  (whatever \<open>isDangerous\<close>, \<open>confirm\<close>, the terminal, and the limit or sample, which are
  positive when present), the working set is not empty, the executor emits the preview of
  the working set with its count and ends in Previewed, and the execution callback is
  never invoked.
\<close>

theorem dry_run_previews_only:
  assumes "items spec \<noteq> []" and "positive_counts opts" and "dryRun opts"
  shows "working_set (random_indices env) opts (items spec) \<noteq> [] \<and>
         protect env spec opts =
           ([PreviewShown (op_name spec)
               (map (formatItem spec) (working_set (random_indices env) opts (items spec)))
               (length (working_set (random_indices env) opts (items spec)))],
            Inr (Previewed
                   (map (formatItem spec) (working_set (random_indices env) opts (items spec)))
                   (length (working_set (random_indices env) opts (items spec))))) \<and>
         invocations (fst (protect env spec opts)) = []"
proof -
  have ne: "working_set (random_indices env) opts (items spec) \<noteq> []"
    using assms(1,2) by (simp add: working_set_nonempty)
  then show ?thesis
    using assms(3) by (simp add: protect_def decide_def Let_def)
qed

theorem dry_run_previews_only_witness:
  "items (unsubscribe_spec False always_resolves two_targets) \<noteq> [] \<and>
   parseOptions
     \<lparr>emailFlag = None, fileFlag = Some ''list.csv'', dryRunFlag = Some True,
      limitFlag = None, sampleFlag = Some ''1'', confirmFlag = Some True\<rparr> =
     Inr \<lparr>dryRun = True, limit = None, sample = Some 1, confirm = True\<rparr> \<and>
   positive_counts \<lparr>dryRun = True, limit = None, sample = Some 1, confirm = True\<rparr> \<and>
   protect declining_terminal (unsubscribe_spec False always_resolves two_targets)
     \<lparr>dryRun = True, limit = None, sample = Some 1, confirm = True\<rparr> =
     ([PreviewShown ''Unsubscribe Subscribers'' [JObj [(''email'', JStr ''a@x.com'')]] 1],
      Inr (Previewed [JObj [(''email'', JStr ''a@x.com'')]] 1))"
proof -
  let ?spec = "unsubscribe_spec False always_resolves two_targets"
  let ?opts = "\<lparr>dryRun = True, limit = None, sample = Some 1, confirm = True\<rparr>"
  have h1: "items ?spec \<noteq> []" by (simp add: unsubscribe_spec_def two_targets_def)
  have h2: "positive_counts ?opts" by (simp add: positive_counts_def)
  have h3: "dryRun ?opts" by simp
  have ws: "working_set (random_indices declining_terminal) ?opts (items ?spec) = [''a@x.com'']"
    by (simp add: working_set_def unsubscribe_spec_def two_targets_def declining_terminal_def)
  have nm: "op_name ?spec = ''Unsubscribe Subscribers''" by (simp add: unsubscribe_spec_def)
  have fm: "formatItem ?spec e = JObj [(''email'', JStr e)]" for e
    by (simp add: unsubscribe_spec_def)
  have po: "parseOptions
     \<lparr>emailFlag = None, fileFlag = Some ''list.csv'', dryRunFlag = Some True,
      limitFlag = None, sampleFlag = Some ''1'', confirmFlag = Some True\<rparr> = Inr ?opts"
    by code_simp
  note inst = dry_run_previews_only [OF h1 h2 h3, of declining_terminal, unfolded ws]
  show ?thesis
    using inst h1 h2 po
    by (simp add: nm fm)
qed




text \<open>
  C7. With a limit \<open>k\<close> that is at most the number \<open>n\<close> of accepted targets, the working
  set is the first \<open>k\<close> targets in their original order, \<open>k\<close> of them; whenever the
  executor decides to execute, that prefix is the working set it proceeds with, and the
  one the execution callback is invoked with.
\<close>

theorem limit_takes_prefix:
  assumes "limit opts = Some k" and "k \<le> length (items spec)"
  shows "working_set (random_indices env) opts (items spec) = take k (items spec) \<and>
         length (working_set (random_indices env) opts (items spec)) = k \<and>
         (\<forall>tr ws. decide env spec opts = (tr, Proceed ws) \<longrightarrow>
            ws = take k (items spec) \<and>
            protect env spec opts =
              (tr @ ExecuteInvoked (take k (items spec)) # fst (execute spec (take k (items spec))),
               snd (run_execute spec (take k (items spec)))))"
proof -
  have ws: "working_set (random_indices env) opts (items spec) = take k (items spec)"
    using assms(1) by (simp add: working_set_def)
  have run: "fst (run_execute spec xs) = ExecuteInvoked xs # fst (execute spec xs)" for xs
    by (simp add: run_execute_def split: prod.split sum.split)
  have "ws' = take k (items spec) \<and>
        protect env spec opts =
          (tr @ ExecuteInvoked (take k (items spec)) # fst (execute spec (take k (items spec))),
           snd (run_execute spec (take k (items spec))))"
    if "decide env spec opts = (tr, Proceed ws')" for tr ws'
  proof -
    from that have eq: "ws' = take k (items spec)"
      by (auto simp: decide_def ws Let_def split: if_splits)
    from that eq show ?thesis
      by (simp add: protect_def run case_prod_beta)
  qed
  with ws assms(2) show ?thesis by simp
qed

theorem limit_takes_prefix_witness:
  "limit \<lparr>dryRun = False, limit = Some 1, sample = None, confirm = True\<rparr> = Some 1 \<and>
   (1::nat) \<le> length (items (unsubscribe_spec False always_resolves two_targets)) \<and>
   decide batch_terminal (unsubscribe_spec False always_resolves two_targets)
     \<lparr>dryRun = False, limit = Some 1, sample = None, confirm = True\<rparr> = ([], Proceed [''a@x.com'']) \<and>
   protect batch_terminal (unsubscribe_spec False always_resolves two_targets)
     \<lparr>dryRun = False, limit = Some 1, sample = None, confirm = True\<rparr> =
     ([ExecuteInvoked [''a@x.com''], Unsubscribe ''a@x.com'',
       OutputSuccess ''Unsubscribed 1 subscriber(s).''],
      Inr (Executed ()))"
proof -
  let ?spec = "unsubscribe_spec False always_resolves two_targets"
  let ?opts = "\<lparr>dryRun = False, limit = Some 1, sample = None, confirm = True\<rparr>"
  have h1: "limit ?opts = Some 1" by simp
  have h2: "(1::nat) \<le> length (items ?spec)" by (simp add: unsubscribe_spec_def two_targets_def)
  have tk: "take 1 (items ?spec) = [''a@x.com'']" by (simp add: unsubscribe_spec_def two_targets_def)
  have d: "decide batch_terminal ?spec ?opts = ([], Proceed [''a@x.com''])"
    by (simp add: decide_def working_set_def unsubscribe_spec_def two_targets_def Let_def)
  have ex: "execute ?spec [''a@x.com''] =
      ([Unsubscribe ''a@x.com'', OutputSuccess ''Unsubscribed 1 subscriber(s).''], Inr ())"
    by code_simp
  have run: "snd (run_execute ?spec [''a@x.com'']) = Inr (Executed ())"
    by (simp add: run_execute_def ex)
  note inst = limit_takes_prefix [OF h1 h2, of batch_terminal, unfolded tk]
  show ?thesis
    using inst h2 d
    by (simp add: ex run)
qed

section \<open>Properties of the sequence commands\<close>

lemma truthy_cases: "truthy x \<longleftrightarrow> (\<exists>s. x = Some s \<and> s \<noteq> [])"
  by (cases x) simp_all

lemma resolveHtmlInput_equal:
  "truthy h = truthy f \<Longrightarrow>
   resolveHtmlInput pm rf h f =
     ([], Inl (validation_error ''Provide exactly one of --html or --html-file.''))"
  by (simp add: resolveHtmlInput_def)

lemma read_html_file_not_exactly_one:
  "snd (read_html_file pm rf p) \<noteq>
     Inl (validation_error ''Provide exactly one of --html or --html-file.'')"
  by (simp add: read_html_file_def html_read_failure_def validation_error_def
      split: sum.split)

lemma validateHtmlSize_not_exactly_one:
  "validateHtmlSize s \<noteq> Inl (validation_error ''Provide exactly one of --html or --html-file.'')"
  by (simp add: validateHtmlSize_def validation_error_def)

lemma resolveHtmlInput_differ:
  "truthy h \<noteq> truthy f \<Longrightarrow>
   snd (resolveHtmlInput pm rf h f) \<noteq>
     Inl (validation_error ''Provide exactly one of --html or --html-file.'')"
proof (cases "truthy h")
  case True
  assume "truthy h \<noteq> truthy f"
  with True obtain s where s: "h = Some s" "s \<noteq> []" by (auto simp: truthy_cases)
  with \<open>truthy h \<noteq> truthy f\<close> True show ?thesis
    using validateHtmlSize_not_exactly_one [of s]
    by (auto simp: resolveHtmlInput_def split: sum.split)
next
  case False
  assume d: "truthy h \<noteq> truthy f"
  with False obtain p where p: "f = Some p" "p \<noteq> []" by (auto simp: truthy_cases)
  with d False show ?thesis
    using read_html_file_not_exactly_one [of pm rf p]
    by (simp add: resolveHtmlInput_def)
qed

lemma resolveHtmlInput_iff:
  "snd (resolveHtmlInput pm rf h f) =
     Inl (validation_error ''Provide exactly one of --html or --html-file.'') \<longleftrightarrow>
   truthy h = truthy f"
  using resolveHtmlInput_equal [of h f pm rf] resolveHtmlInput_differ [of h f pm rf]
  by auto

lemma resolveOptionalHtmlInput_iff:
  "snd (resolveOptionalHtmlInput pm rf h f) =
     Inl (validation_error ''Provide exactly one of --html or --html-file.'') \<longleftrightarrow>
   truthy h \<and> truthy f"
proof (cases "truthy h = truthy f")
  case True
  then show ?thesis
    by (auto simp: resolveOptionalHtmlInput_def resolveHtmlInput_equal)
next
  case False
  then have "snd (resolveHtmlInput pm rf h f) \<noteq>
     Inl (validation_error ''Provide exactly one of --html or --html-file.'')"
    by (rule resolveHtmlInput_differ)
  with False show ?thesis
    by (auto simp: resolveOptionalHtmlInput_def split: prod.split sum.split)
qed

text \<open>
  C9, as the claim states it, fails in both directions. For \<open>update-email\<close>,
  \<open>resolveOptionalHtmlInput\<close> returns \<open>undefined\<close> when neither flag is given, before
  \<open>resolveHtmlInput\<close> is called: with a subject and neither flag, no error is raised and
  the command calls the remote API. And with exactly one flag given, \<open>resolveHtmlInput\<close>
  still raises a validation error when the file cannot be read.
\<close>

theorem update_without_html_counterexample:
  "\<not> truthy None \<and>
   resolveOptionalHtmlInput (paths work_world) (read_file work_world) None None = ([], Inr None) \<and>
   resolveHtmlInput (paths work_world) (read_file work_world) None (Some ''missing.html'') =
     ([ReadFile ''/work/missing.html''],
      Inl (validation_error ''HTML file not found: missing.html'')) \<and>
   is_validation_error (validation_error ''HTML file not found: missing.html'') \<and>
   update_email_action work_world
     \<lparr>templateId = ''12345'', new_subject = Some ''Updated subject'', new_html = None,
      new_htmlFile = None\<rparr> =
     ([SpinnerStart ''Updating sequence email...'',
       UpdateSequenceEmail ''12345'' \<lparr>ui_subject = Some ''Updated subject'', ui_html = None\<rparr>,
       SpinnerStop ''Sequence email updated'',
       OutputSuccess ''Updated email template 12345''],
      Returned ())"
  by code_simp

text \<open>
  C9, amended. A flag counts as given when it is a non-empty string. For \<open>create-email\<close>,
  \<open>resolveHtmlInput\<close> raises the validation error "Provide exactly one of --html or
  --html-file." if and only if both flags or neither flag is given. For \<open>update-email\<close>,
  \<open>resolveOptionalHtmlInput\<close> raises it if and only if both flags are given; with neither
  it returns \<open>undefined\<close> and raises nothing. Where the error is raised no file is read,
  and the command prints a message and exits with code 1 without calling the remote API
  (for \<open>create-email\<close> the message is that of the sequence id check when the id is
  invalid, since that check comes first).
\<close>

theorem exactly_one_html_source:
  "(snd (resolveHtmlInput pm rf h f) =
      Inl (validation_error ''Provide exactly one of --html or --html-file.'') \<longleftrightarrow>
    truthy h = truthy f) \<and>
   (snd (resolveOptionalHtmlInput pm rf h f) =
      Inl (validation_error ''Provide exactly one of --html or --html-file.'') \<longleftrightarrow>
    truthy h \<and> truthy f) \<and>
   (\<not> truthy h \<and> \<not> truthy f \<longrightarrow> resolveOptionalHtmlInput pm rf h f = ([], Inr None)) \<and>
   (truthy h = truthy f \<longrightarrow> fst (resolveHtmlInput pm rf h f) = []) \<and>
   (truthy h \<and> truthy f \<longrightarrow> fst (resolveOptionalHtmlInput pm rf h f) = []) \<and>
   (truthy (html options) = truthy (htmlFile options) \<longrightarrow>
      create_email_action w options =
        ([SpinnerFail,
          OutputError
            (if validateSequenceId (sequenceId options) = Inr () then
               ''Provide exactly one of --html or --html-file.''
             else ''Sequence ID must be a valid prefix_id (e.g. sequence_abc123).'')],
         Exited 1)) \<and>
   (truthy (new_html changes) \<and> truthy (new_htmlFile changes) \<longrightarrow>
      update_email_action w changes =
        ([SpinnerFail, OutputError ''Provide exactly one of --html or --html-file.''], Exited 1))"
proof -
  have create: "create_email_action w options =
        ([SpinnerFail,
          OutputError
            (if validateSequenceId (sequenceId options) = Inr () then
               ''Provide exactly one of --html or --html-file.''
             else ''Sequence ID must be a valid prefix_id (e.g. sequence_abc123).'')],
         Exited 1)"
    if "truthy (html options) = truthy (htmlFile options)"
    using resolveHtmlInput_equal [OF that, of "paths w" "read_file w"]
    by (simp add: create_email_action_def validateSequenceId_def action_catch_def
        handleError_def validation_error_def)
  have update: "update_email_action w changes =
        ([SpinnerFail, OutputError ''Provide exactly one of --html or --html-file.''], Exited 1)"
    if "truthy (new_html changes) \<and> truthy (new_htmlFile changes)"
    using that
    by (simp add: update_email_action_def resolveOptionalHtmlInput_def resolveHtmlInput_equal
        action_catch_def handleError_def validation_error_def)
  have c3: "\<not> truthy h \<and> \<not> truthy f \<longrightarrow> resolveOptionalHtmlInput pm rf h f = ([], Inr None)"
    by (simp add: resolveOptionalHtmlInput_def)
  have c4: "truthy h = truthy f \<longrightarrow> fst (resolveHtmlInput pm rf h f) = []"
    by (simp add: resolveHtmlInput_equal)
  have c5: "truthy h \<and> truthy f \<longrightarrow> fst (resolveOptionalHtmlInput pm rf h f) = []"
    by (simp add: resolveOptionalHtmlInput_def resolveHtmlInput_equal)
  from create update c3 c4 c5 show ?thesis
    using resolveHtmlInput_iff [of pm rf h f] resolveOptionalHtmlInput_iff [of pm rf h f]
    by blast
qed

theorem exactly_one_html_source_witness:
  "truthy None = truthy None \<and> \<not> truthy None \<and>
   truthy (html create_without_html) = truthy (htmlFile create_without_html) \<and>
   truthy (new_html update_with_both) \<and> truthy (new_htmlFile update_with_both) \<and>
   resolveHtmlInput (paths work_world) (read_file work_world) None None =
     ([], Inl (validation_error ''Provide exactly one of --html or --html-file.'')) \<and>
   resolveOptionalHtmlInput (paths work_world) (read_file work_world) None None = ([], Inr None) \<and>
   resolveOptionalHtmlInput (paths work_world) (read_file work_world)
     (Some ''<p>Inline</p>'') (Some ''mail.html'') =
     ([], Inl (validation_error ''Provide exactly one of --html or --html-file.'')) \<and>
   create_email_action work_world create_without_html =
     ([SpinnerFail, OutputError ''Provide exactly one of --html or --html-file.''], Exited 1) \<and>
   update_email_action work_world update_with_both =
     ([SpinnerFail, OutputError ''Provide exactly one of --html or --html-file.''], Exited 1)"
proof -
  let ?pm = "paths work_world" and ?rf = "read_file work_world"
  have t1: "truthy (html create_without_html) = truthy (htmlFile create_without_html)"
    by (simp add: create_without_html_def)
  have t2: "truthy (new_html update_with_both)" "truthy (new_htmlFile update_with_both)"
    by (simp_all add: update_with_both_def)
  have sid: "validateSequenceId (sequenceId create_without_html) = Inr ()" by code_simp
  note neither = exactly_one_html_source [of ?pm ?rf None None create_without_html work_world
      update_with_both]
  note both = exactly_one_html_source [of ?pm ?rf "Some ''<p>Inline</p>''" "Some ''mail.html''"
      create_without_html work_world update_with_both]
  show ?thesis
    using neither both t1 t2 sid
    by (simp add: prod_eq_iff)
qed

lemma outside_resolution:
  assumes "p \<noteq> []" and "isOutsideProject pm p"
  shows "resolveHtmlInput pm rf h (Some p) =
           ([], Inl (validation_error
                       (if truthy h then ''Provide exactly one of --html or --html-file.''
                        else ''Unable to read HTML file: '' @ p)))"
  using assms
  by (simp add: resolveHtmlInput_def read_html_file_def resolveSafeHtmlPath_def
      html_read_failure_def validation_error_def)

text \<open>
  C10. Let the \<open>--html-file\<close> argument \<open>p\<close> resolve outside the working directory: the
  path relative to the working directory starts with \<open>..\<close> or is absolute. (\<open>p\<close> is not
  empty: the empty argument counts as not given, and resolves to the working directory
  itself.) Then \<open>resolveHtmlInput\<close> raises a validation error without reading a file, and
  both commands print its message and exit with code 1 without reading a file or
  calling the remote API. The error of \<open>resolveSafeHtmlPath\<close> is thrown inside the \<open>try\<close>
  of \<open>resolveHtmlInput\<close>, whose \<open>catch\<close> replaces it, so the message is "Unable to read
  HTML file: p" unless an earlier check (the sequence id, exactly one of the two flags)
  has already failed.
\<close>

theorem outside_path_never_read:
  assumes "p \<noteq> []" and "isOutsideProject (paths w) p"
    and "htmlFile options = Some p" and "new_htmlFile changes = Some p"
  shows "resolveHtmlInput (paths w) (read_file w) h (Some p) =
           ([], Inl (validation_error
                       (if truthy h then ''Provide exactly one of --html or --html-file.''
                        else ''Unable to read HTML file: '' @ p))) \<and>
         is_validation_error
           (validation_error
              (if truthy h then ''Provide exactly one of --html or --html-file.''
               else ''Unable to read HTML file: '' @ p)) \<and>
         create_email_action w options =
           ([SpinnerFail,
             OutputError
               (if validateSequenceId (sequenceId options) \<noteq> Inr () then
                  ''Sequence ID must be a valid prefix_id (e.g. sequence_abc123).''
                else if truthy (html options) then
                  ''Provide exactly one of --html or --html-file.''
                else ''Unable to read HTML file: '' @ p)],
            Exited 1) \<and>
         update_email_action w changes =
           ([SpinnerFail,
             OutputError
               (if truthy (new_html changes) then
                  ''Provide exactly one of --html or --html-file.''
                else ''Unable to read HTML file: '' @ p)],
            Exited 1)"
proof -
  note res = outside_resolution [OF assms(1,2)]
  have b: "create_email_action w options =
           ([SpinnerFail,
             OutputError
               (if validateSequenceId (sequenceId options) \<noteq> Inr () then
                  ''Sequence ID must be a valid prefix_id (e.g. sequence_abc123).''
                else if truthy (html options) then
                  ''Provide exactly one of --html or --html-file.''
                else ''Unable to read HTML file: '' @ p)],
            Exited 1)"
  proof (cases "validateSequenceId (sequenceId options)")
    case (Inl e)
    then have "e = validation_error ''Sequence ID must be a valid prefix_id (e.g. sequence_abc123).''"
      by (auto simp: validateSequenceId_def split: if_splits)
    with Inl show ?thesis
      by (simp add: create_email_action_def action_catch_def handleError_def validation_error_def)
  next
    case (Inr u)
    with assms(3) show ?thesis
      by (simp add: create_email_action_def res action_catch_def handleError_def
          validation_error_def)
  qed
  have c: "update_email_action w changes =
           ([SpinnerFail,
             OutputError
               (if truthy (new_html changes) then
                  ''Provide exactly one of --html or --html-file.''
                else ''Unable to read HTML file: '' @ p)],
            Exited 1)"
    using assms(1,4)
    by (simp add: update_email_action_def resolveOptionalHtmlInput_def res action_catch_def
        handleError_def validation_error_def)
  show ?thesis
    using b c by (simp add: res) (simp add: validation_error_def)
qed

theorem outside_path_never_read_witness:
  "''../secret.html'' \<noteq> [] \<and> isOutsideProject (paths work_world) ''../secret.html'' \<and>
   htmlFile create_from_outside = Some ''../secret.html'' \<and>
   new_htmlFile update_from_outside = Some ''../secret.html'' \<and>
   resolveHtmlInput (paths work_world) (read_file work_world) None (Some ''../secret.html'') =
     ([], Inl (validation_error ''Unable to read HTML file: ../secret.html'')) \<and>
   create_email_action work_world create_from_outside =
     ([SpinnerFail, OutputError ''Unable to read HTML file: ../secret.html''], Exited 1) \<and>
   update_email_action work_world update_from_outside =
     ([SpinnerFail, OutputError ''Unable to read HTML file: ../secret.html''], Exited 1)"
proof -
  have h1: "''../secret.html'' \<noteq> []" by simp
  have h2: "isOutsideProject (paths work_world) ''../secret.html''" by code_simp
  have h3: "htmlFile create_from_outside = Some ''../secret.html''"
    by (simp add: create_from_outside_def)
  have h4: "new_htmlFile update_from_outside = Some ''../secret.html''"
    by (simp add: update_from_outside_def)
  have sid: "validateSequenceId (sequenceId create_from_outside) = Inr ()" by code_simp
  have nh: "\<not> truthy (html create_from_outside)" "\<not> truthy (new_html update_from_outside)"
    by (simp_all add: create_from_outside_def update_from_outside_def)
  show ?thesis
    using outside_path_never_read [OF h1 h2 h3 h4, of None] h2 h3 h4 sid nh
    by simp
qed

end
